theory Spec2Isabelle
  imports Main "HOL-Library.Word"
begin

section \<open>Objects, pointers and the interpreter state\<close>

text \<open>
  The interpreter works on heap objects that are compared by address (\<open>is_nil\<close>,
  \<open>builtin_eq\<close>), so the model keeps an explicit store.  A pointer is \<open>NULL\<close> or the
  index of an object in \<open>all_objs\<close>; \<open>alloc_obj\<close> appends to that array and nothing is
  ever freed, so the index of an object is its identity.
\<close>

datatype ptr = NULL | Ptr nat

text \<open>The ten host functions a \<open>T_FUNC\<close> object can point to.\<close>

datatype BuiltinFunc =
  Fn_car | Fn_cdr | Fn_cons | Fn_add | Fn_sub | Fn_mul | Fn_div | Fn_eq | Fn_lt | Fn_print

text \<open>
  \<open>struct Obj\<close>: the tag and the union member that belongs to it.  A C \<open>int\<close> is a
  32-bit word; arithmetic on it wraps around.
\<close>

datatype Obj =
  T_INT "32 word"
| T_SYMBOL string
| T_CONS ptr ptr
| T_FUNC BuiltinFunc
| T_LAMBDA ptr ptr ptr

datatype ObjType = TY_INT | TY_SYMBOL | TY_CONS | TY_FUNC | TY_LAMBDA

fun type_of :: "Obj \<Rightarrow> ObjType" where
  "type_of (T_INT n) = TY_INT"
| "type_of (T_SYMBOL x) = TY_SYMBOL"
| "type_of (T_CONS a d) = TY_CONS"
| "type_of (T_FUNC f) = TY_FUNC"
| "type_of (T_LAMBDA p b e) = TY_LAMBDA"

text \<open>
  The mutable globals: the object array, the cell \<open>global_env_ptr\<close> points to
  (\<open>None\<close> while the pointer is \<open>NULL\<close>), and the text written to the two output
  streams.
\<close>

record state =
  all_objs :: "Obj list"
  global_env :: "ptr option"
  stdout :: string
  stderr :: string

text \<open>
  How a call can fail to return a value: \<open>exit(1)\<close> in \<open>alloc_obj\<close>, a read
  through \<open>NULL\<close> or of a union member that was not stored (no defined behaviour in C), and
  the exhaustion of the recursion budget that stands for a computation that does not end.
\<close>

datatype error = OutOfMemory | Undefined | OutOfFuel

type_synonym 'a result = "error + 'a"

definition MAX_OBJS :: nat where
  "MAX_OBJS = 10000"

definition newline :: char where
  "newline = CHR 0x0A"

text \<open>\<open>fprintf(stderr, "...\n")\<close> and \<open>printf("...")\<close>.\<close>

definition eprint :: "string \<Rightarrow> state \<Rightarrow> state" where
  "eprint line s = s\<lparr>stderr := stderr s @ line @ [newline]\<rparr>"

definition oprint :: "string \<Rightarrow> state \<Rightarrow> state" where
  "oprint txt s = s\<lparr>stdout := stdout s @ txt\<rparr>"

text \<open>
  \<open>repl\<close> allocates \<open>nil_obj\<close> and \<open>t_obj\<close> before anything else, so they are the
  objects 0 and 1 of every session.
\<close>

definition nil_obj :: ptr where
  "nil_obj = Ptr 0"

definition t_obj :: ptr where
  "t_obj = Ptr 1"

definition is_nil :: "ptr \<Rightarrow> bool" where
  "is_nil obj = (obj = nil_obj)"

definition deref :: "state \<Rightarrow> ptr \<Rightarrow> Obj result" where
  "deref s p =
     (case p of
        NULL \<Rightarrow> Inl Undefined
      | Ptr a \<Rightarrow> if a < length (all_objs s) then Inr (all_objs s ! a) else Inl Undefined)"

text \<open>
  \<open>alloc_obj\<close> together with the stores into the fresh object that each constructor
  makes right after it.
\<close>

definition alloc_obj :: "Obj \<Rightarrow> state \<Rightarrow> (ptr \<times> state) result" where
  "alloc_obj obj s =
     (if length (all_objs s) \<ge> MAX_OBJS then Inl OutOfMemory
      else Inr (Ptr (length (all_objs s)), s\<lparr>all_objs := all_objs s @ [obj]\<rparr>))"

definition make_int :: "32 word \<Rightarrow> state \<Rightarrow> (ptr \<times> state) result" where
  "make_int num s = alloc_obj (T_INT num) s"

definition make_symbol :: "string \<Rightarrow> state \<Rightarrow> (ptr \<times> state) result" where
  "make_symbol name s = alloc_obj (T_SYMBOL name) s"

definition cons :: "ptr \<Rightarrow> ptr \<Rightarrow> state \<Rightarrow> (ptr \<times> state) result" where
  "cons car_obj cdr_obj s = alloc_obj (T_CONS car_obj cdr_obj) s"

definition make_func :: "BuiltinFunc \<Rightarrow> state \<Rightarrow> (ptr \<times> state) result" where
  "make_func func s = alloc_obj (T_FUNC func) s"

definition make_lambda :: "ptr \<Rightarrow> ptr \<Rightarrow> ptr \<Rightarrow> state \<Rightarrow> (ptr \<times> state) result" where
  "make_lambda params body env s = alloc_obj (T_LAMBDA params body env) s"

definition car :: "ptr \<Rightarrow> state \<Rightarrow> (ptr \<times> state) result" where
  "car obj s =
     (case deref s obj of
        Inl e \<Rightarrow> Inl e
      | Inr (T_CONS a d) \<Rightarrow> Inr (a, s)
      | Inr _ \<Rightarrow> Inr (nil_obj, eprint ''CAR: not a cons cell'' s))"

definition cdr :: "ptr \<Rightarrow> state \<Rightarrow> (ptr \<times> state) result" where
  "cdr obj s =
     (case deref s obj of
        Inl e \<Rightarrow> Inl e
      | Inr (T_CONS a d) \<Rightarrow> Inr (d, s)
      | Inr _ \<Rightarrow> Inr (nil_obj, eprint ''CDR: not a cons cell'' s))"

text \<open>\<open>obj->sym\<close>: defined only when the object is a symbol.\<close>

definition sym_of :: "state \<Rightarrow> ptr \<Rightarrow> string result" where
  "sym_of s p =
     (case deref s p of
        Inl e \<Rightarrow> Inl e
      | Inr (T_SYMBOL name) \<Rightarrow> Inr name
      | Inr _ \<Rightarrow> Inl Undefined)"


section \<open>Built-in functions\<close>

text \<open>
  Every built-in receives the evaluated argument list and the environment, which none of
  them reads.  The \<open>while (!is_nil(args))\<close> loops walk a chain of cells in the store; the
  first argument of each loop function bounds the number of iterations.
\<close>

definition builtin_car :: "ptr \<Rightarrow> ptr \<Rightarrow> state \<Rightarrow> (ptr \<times> state) result" where
  "builtin_car args env s =
     (if is_nil args then Inr (nil_obj, s)
      else case car args s of Inl e \<Rightarrow> Inl e | Inr (a, s1) \<Rightarrow> car a s1)"

definition builtin_cdr :: "ptr \<Rightarrow> ptr \<Rightarrow> state \<Rightarrow> (ptr \<times> state) result" where
  "builtin_cdr args env s =
     (if is_nil args then Inr (nil_obj, s)
      else case car args s of Inl e \<Rightarrow> Inl e | Inr (a, s1) \<Rightarrow> cdr a s1)"

text \<open>
  \<open>cons(car(args), car(cdr(args)))\<close>: the two arguments of the call are taken from left
  to right.
\<close>

definition builtin_cons :: "ptr \<Rightarrow> ptr \<Rightarrow> state \<Rightarrow> (ptr \<times> state) result" where
  "builtin_cons args env s =
     (if is_nil args then Inr (nil_obj, s)
      else case cdr args s of Inl e \<Rightarrow> Inl e | Inr (d, s1) \<Rightarrow>
        if is_nil d then Inr (nil_obj, s1)
        else case car args s1 of Inl e \<Rightarrow> Inl e | Inr (a, s2) \<Rightarrow>
          case cdr args s2 of Inl e \<Rightarrow> Inl e | Inr (d', s3) \<Rightarrow>
            case car d' s3 of Inl e \<Rightarrow> Inl e | Inr (b, s4) \<Rightarrow> cons a b s4)"

fun add_loop :: "nat \<Rightarrow> 32 word \<Rightarrow> ptr \<Rightarrow> state \<Rightarrow> (ptr \<times> state) result" where
  "add_loop 0 acc args s = Inl OutOfFuel"
| "add_loop (Suc n) acc args s =
     (if is_nil args then make_int acc s
      else case car args s of Inl e \<Rightarrow> Inl e | Inr (arg, s1) \<Rightarrow>
        case deref s1 arg of
          Inl e \<Rightarrow> Inl e
        | Inr (T_INT num) \<Rightarrow>
            (case cdr args s1 of Inl e \<Rightarrow> Inl e | Inr (args', s2) \<Rightarrow>
               add_loop n (acc + num) args' s2)
        | Inr _ \<Rightarrow> make_int 0 (eprint ''+: expected integer'' s1))"

definition builtin_add :: "nat \<Rightarrow> ptr \<Rightarrow> ptr \<Rightarrow> state \<Rightarrow> (ptr \<times> state) result" where
  "builtin_add n args env s = add_loop n 0 args s"

fun sub_loop :: "nat \<Rightarrow> 32 word \<Rightarrow> ptr \<Rightarrow> state \<Rightarrow> (ptr \<times> state) result" where
  "sub_loop 0 res args s = Inl OutOfFuel"
| "sub_loop (Suc n) res args s =
     (if is_nil args then make_int res s
      else case car args s of Inl e \<Rightarrow> Inl e | Inr (arg, s1) \<Rightarrow>
        case deref s1 arg of
          Inl e \<Rightarrow> Inl e
        | Inr (T_INT num) \<Rightarrow>
            (case cdr args s1 of Inl e \<Rightarrow> Inl e | Inr (args', s2) \<Rightarrow>
               sub_loop n (res - num) args' s2)
        | Inr _ \<Rightarrow> make_int 0 s1)"

definition builtin_sub :: "nat \<Rightarrow> ptr \<Rightarrow> ptr \<Rightarrow> state \<Rightarrow> (ptr \<times> state) result" where
  "builtin_sub n args env s =
     (if is_nil args then make_int 0 s
      else case car args s of Inl e \<Rightarrow> Inl e | Inr (first, s1) \<Rightarrow>
        case deref s1 first of
          Inl e \<Rightarrow> Inl e
        | Inr (T_INT num) \<Rightarrow>
            (case cdr args s1 of Inl e \<Rightarrow> Inl e | Inr (d, s2) \<Rightarrow>
               if is_nil d then make_int (- num) s2
               else case cdr args s2 of Inl e \<Rightarrow> Inl e | Inr (args', s3) \<Rightarrow>
                 sub_loop n num args' s3)
        | Inr _ \<Rightarrow> make_int 0 s1)"

fun mul_loop :: "nat \<Rightarrow> 32 word \<Rightarrow> ptr \<Rightarrow> state \<Rightarrow> (ptr \<times> state) result" where
  "mul_loop 0 product args s = Inl OutOfFuel"
| "mul_loop (Suc n) product args s =
     (if is_nil args then make_int product s
      else case car args s of Inl e \<Rightarrow> Inl e | Inr (arg, s1) \<Rightarrow>
        case deref s1 arg of
          Inl e \<Rightarrow> Inl e
        | Inr (T_INT num) \<Rightarrow>
            (case cdr args s1 of Inl e \<Rightarrow> Inl e | Inr (args', s2) \<Rightarrow>
               mul_loop n (product * num) args' s2)
        | Inr _ \<Rightarrow> make_int 1 s1)"

definition builtin_mul :: "nat \<Rightarrow> ptr \<Rightarrow> ptr \<Rightarrow> state \<Rightarrow> (ptr \<times> state) result" where
  "builtin_mul n args env s = mul_loop n 1 args s"

text \<open>
  C's \<open>/\<close> on \<open>int\<close> truncates toward zero; \<open>INT_MIN / -1\<close> has no defined result (and
  traps on the usual hosts).
\<close>

definition c_div :: "32 word \<Rightarrow> 32 word \<Rightarrow> 32 word result" where
  "c_div a b =
     (if sint a = - (2 ^ 31) \<and> sint b = - 1 then Inl Undefined
      else Inr (word_of_int (sgn (sint a) * sgn (sint b) * (\<bar>sint a\<bar> div \<bar>sint b\<bar>))))"

fun div_loop :: "nat \<Rightarrow> 32 word \<Rightarrow> ptr \<Rightarrow> state \<Rightarrow> (ptr \<times> state) result" where
  "div_loop 0 res args s = Inl OutOfFuel"
| "div_loop (Suc n) res args s =
     (if is_nil args then make_int res s
      else case car args s of Inl e \<Rightarrow> Inl e | Inr (arg, s1) \<Rightarrow>
        case deref s1 arg of
          Inl e \<Rightarrow> Inl e
        | Inr (T_INT num) \<Rightarrow>
            if num = 0 then make_int 0 (eprint ''/: division by zero or bad argument'' s1)
            else (case c_div res num of Inl e \<Rightarrow> Inl e | Inr res' \<Rightarrow>
               case cdr args s1 of Inl e \<Rightarrow> Inl e | Inr (args', s2) \<Rightarrow>
                 div_loop n res' args' s2)
        | Inr _ \<Rightarrow> make_int 0 (eprint ''/: division by zero or bad argument'' s1))"

definition builtin_div :: "nat \<Rightarrow> ptr \<Rightarrow> ptr \<Rightarrow> state \<Rightarrow> (ptr \<times> state) result" where
  "builtin_div n args env s =
     (if is_nil args then make_int 1 s
      else case car args s of Inl e \<Rightarrow> Inl e | Inr (first, s1) \<Rightarrow>
        case deref s1 first of
          Inl e \<Rightarrow> Inl e
        | Inr (T_INT num) \<Rightarrow>
            (case cdr args s1 of Inl e \<Rightarrow> Inl e | Inr (args', s2) \<Rightarrow>
               div_loop n num args' s2)
        | Inr _ \<Rightarrow> make_int 1 s1)"

text \<open>
  \<open>builtin_eq\<close>: integers by value, everything else by address (\<open>a == b\<close>).  The first
  two guards call \<open>cdr(args)\<close>, then \<open>car(args)\<close> and \<open>car(cdr(args))\<close> are read.
\<close>

definition builtin_eq :: "ptr \<Rightarrow> ptr \<Rightarrow> state \<Rightarrow> (ptr \<times> state) result" where
  "builtin_eq args env s =
     (if is_nil args then Inr (nil_obj, s)
      else case cdr args s of Inl e \<Rightarrow> Inl e | Inr (d, s1) \<Rightarrow>
        if is_nil d then Inr (nil_obj, s1)
        else case car args s1 of Inl e \<Rightarrow> Inl e | Inr (a, s2) \<Rightarrow>
          case cdr args s2 of Inl e \<Rightarrow> Inl e | Inr (d', s3) \<Rightarrow>
            case car d' s3 of Inl e \<Rightarrow> Inl e | Inr (b, s4) \<Rightarrow>
              case deref s4 a of Inl e \<Rightarrow> Inl e | Inr oa \<Rightarrow>
                case deref s4 b of Inl e \<Rightarrow> Inl e | Inr ob \<Rightarrow>
                  if type_of oa \<noteq> type_of ob then Inr (nil_obj, s4)
                  else case (oa, ob) of
                    (T_INT x, T_INT y) \<Rightarrow> Inr (if x = y then t_obj else nil_obj, s4)
                  | _ \<Rightarrow> Inr (if a = b then t_obj else nil_obj, s4))"

definition builtin_lt :: "ptr \<Rightarrow> ptr \<Rightarrow> state \<Rightarrow> (ptr \<times> state) result" where
  "builtin_lt args env s =
     (if is_nil args then Inr (nil_obj, s)
      else case cdr args s of Inl e \<Rightarrow> Inl e | Inr (d, s1) \<Rightarrow>
        if is_nil d then Inr (nil_obj, s1)
        else case car args s1 of Inl e \<Rightarrow> Inl e | Inr (a, s2) \<Rightarrow>
          case cdr args s2 of Inl e \<Rightarrow> Inl e | Inr (d', s3) \<Rightarrow>
            case car d' s3 of Inl e \<Rightarrow> Inl e | Inr (b, s4) \<Rightarrow>
              case deref s4 a of Inl e \<Rightarrow> Inl e | Inr oa \<Rightarrow>
                case deref s4 b of Inl e \<Rightarrow> Inl e | Inr ob \<Rightarrow>
                  (case (oa, ob) of
                    (T_INT x, T_INT y) \<Rightarrow> Inr (if sint x < sint y then t_obj else nil_obj, s4)
                  | _ \<Rightarrow> Inr (nil_obj, s4)))"

section \<open>Printer\<close>

text \<open>\<open>printf("%d", num)\<close>: the decimal digits, after a minus sign for a negative number.\<close>

fun nat_digits :: "nat \<Rightarrow> string" where
  "nat_digits n =
     (if n < 10 then [char_of (48 + n)]
      else nat_digits (n div 10) @ [char_of (48 + n mod 10)])"

declare nat_digits.simps [simp del]

definition print_int :: "32 word \<Rightarrow> string" where
  "print_int num =
     (if sint num < 0 then CHR ''-'' # nat_digits (nat (- sint num))
      else nat_digits (nat (sint num)))"

text \<open>
  \<open>print_obj\<close> and the \<open>while (!is_nil(obj))\<close> loop of its \<open>T_CONS\<close> case.  Inside
  that case \<open>car\<close> and \<open>cdr\<close> are applied to a cell, so they return its two fields.
\<close>

fun print_obj :: "nat \<Rightarrow> ptr \<Rightarrow> state \<Rightarrow> state result"
  and print_tail :: "nat \<Rightarrow> ptr \<Rightarrow> state \<Rightarrow> state result" where
  "print_obj 0 obj s = Inl OutOfFuel"
| "print_obj (Suc n) obj s =
     (if obj = NULL then Inr (oprint ''NULL'' s)
      else case deref s obj of
        Inl e \<Rightarrow> Inl e
      | Inr (T_INT num) \<Rightarrow> Inr (oprint (print_int num) s)
      | Inr (T_SYMBOL name) \<Rightarrow> Inr (oprint name s)
      | Inr (T_CONS a d) \<Rightarrow>
          (case print_obj n a (oprint ''('' s) of Inl e \<Rightarrow> Inl e | Inr s1 \<Rightarrow>
             case print_tail n d s1 of Inl e \<Rightarrow> Inl e | Inr s2 \<Rightarrow> Inr (oprint '')'' s2))
      | Inr (T_FUNC f) \<Rightarrow> Inr (oprint ''<built-in function>'' s)
      | Inr (T_LAMBDA p b e) \<Rightarrow> Inr (oprint ''<lambda>'' s))"
| "print_tail 0 obj s = Inl OutOfFuel"
| "print_tail (Suc n) obj s =
     (if is_nil obj then Inr s
      else case deref s obj of
        Inl e \<Rightarrow> Inl e
      | Inr (T_CONS a d) \<Rightarrow>
          (case print_obj n a (oprint '' '' s) of Inl e \<Rightarrow> Inl e | Inr s1 \<Rightarrow>
             print_tail n d s1)
      | Inr _ \<Rightarrow> print_obj n obj (oprint '' . '' s))"

fun print_loop :: "nat \<Rightarrow> ptr \<Rightarrow> state \<Rightarrow> (ptr \<times> state) result" where
  "print_loop 0 args s = Inl OutOfFuel"
| "print_loop (Suc n) args s =
     (if is_nil args then Inr (nil_obj, s)
      else case car args s of Inl e \<Rightarrow> Inl e | Inr (a, s1) \<Rightarrow>
        case print_obj n a s1 of Inl e \<Rightarrow> Inl e | Inr s2 \<Rightarrow>
          case cdr args (oprint [newline] s2) of Inl e \<Rightarrow> Inl e | Inr (args', s3) \<Rightarrow>
            print_loop n args' s3)"

definition builtin_print :: "nat \<Rightarrow> ptr \<Rightarrow> ptr \<Rightarrow> state \<Rightarrow> (ptr \<times> state) result" where
  "builtin_print n args env s = print_loop n args s"

text \<open>\<open>func->func(evaled_args, env)\<close>: the call through the function pointer.\<close>

fun call_builtin :: "nat \<Rightarrow> BuiltinFunc \<Rightarrow> ptr \<Rightarrow> ptr \<Rightarrow> state \<Rightarrow> (ptr \<times> state) result" where
  "call_builtin n Fn_car args env s = builtin_car args env s"
| "call_builtin n Fn_cdr args env s = builtin_cdr args env s"
| "call_builtin n Fn_cons args env s = builtin_cons args env s"
| "call_builtin n Fn_add args env s = builtin_add n args env s"
| "call_builtin n Fn_sub args env s = builtin_sub n args env s"
| "call_builtin n Fn_mul args env s = builtin_mul n args env s"
| "call_builtin n Fn_div args env s = builtin_div n args env s"
| "call_builtin n Fn_eq args env s = builtin_eq args env s"
| "call_builtin n Fn_lt args env s = builtin_lt args env s"
| "call_builtin n Fn_print args env s = builtin_print n args env s"

section \<open>Tokenizer\<close>

text \<open>
  The input is a C string: reading at or past its end yields the terminating NUL, and
  every loop stops there.
\<close>

record Tokenizer =
  input :: string
  pos :: nat

definition NUL :: char where
  "NUL = CHR 0x00"

definition cur :: "Tokenizer \<Rightarrow> char" where
  "cur t = (if pos t < length (input t) then input t ! pos t else NUL)"

definition advance :: "Tokenizer \<Rightarrow> Tokenizer" where
  "advance t = t\<lparr>pos := Suc (pos t)\<rparr>"

text \<open>\<open>isspace\<close> and \<open>isdigit\<close> of the C locale.\<close>

definition isspace :: "char \<Rightarrow> bool" where
  "isspace c = (c = CHR 0x20 \<or> c = CHR 0x09 \<or> c = CHR 0x0A \<or> c = CHR 0x0B \<or> c = CHR 0x0C
     \<or> c = CHR 0x0D)"

definition isdigit :: "char \<Rightarrow> bool" where
  "isdigit c = (48 \<le> (of_char c :: nat) \<and> (of_char c :: nat) \<le> 57)"

function skip_comment :: "Tokenizer \<Rightarrow> Tokenizer" where
  "skip_comment t =
     (if cur t \<noteq> NUL \<and> cur t \<noteq> newline then skip_comment (advance t) else t)"
  by pat_completeness auto
termination
  by (relation "measure (\<lambda>t. length (input t) - pos t)")
     (auto simp: cur_def advance_def split: if_splits)

declare skip_comment.simps [simp del]

lemma skip_comment_input: "input (skip_comment t) = input t"
  by (induction t rule: skip_comment.induct)
     (subst skip_comment.simps, simp add: advance_def)

lemma skip_comment_pos_le: "pos t \<le> pos (skip_comment t)"
proof (induction t rule: skip_comment.induct)
  case (1 t)
  show ?case
  proof (cases "cur t \<noteq> NUL \<and> cur t \<noteq> newline")
    case True
    then have "pos (advance t) \<le> pos (skip_comment (advance t))" by (rule "1.IH")
    with True show ?thesis by (subst skip_comment.simps) (simp add: advance_def)
  next
    case False
    then show ?thesis by (subst skip_comment.simps) auto
  qed
qed

lemma skip_comment_progress:
  assumes "cur t \<noteq> NUL" and "cur t \<noteq> newline"
  shows "length (input (skip_comment t)) - pos (skip_comment t) < length (input t) - pos t"
proof -
  have lt: "pos t < length (input t)"
    using assms(1) by (auto simp: cur_def split: if_splits)
  have "skip_comment t = skip_comment (advance t)"
    using assms by (subst skip_comment.simps) simp
  moreover have "pos (advance t) \<le> pos (skip_comment (advance t))"
    by (rule skip_comment_pos_le)
  ultimately have "Suc (pos t) \<le> pos (skip_comment t)"
    by (simp add: advance_def)
  with lt show ?thesis by (simp add: skip_comment_input)
qed

function skip_whitespace :: "Tokenizer \<Rightarrow> Tokenizer" where
  "skip_whitespace t =
     (if cur t \<noteq> NUL then
        (if isspace (cur t) then skip_whitespace (advance t)
         else if cur t = CHR '';'' then skip_whitespace (skip_comment t)
         else t)
      else t)"
  by pat_completeness auto
termination
proof (relation "measure (\<lambda>t. length (input t) - pos t)")
  show "wf (measure (\<lambda>t. length (input t) - pos t))" by simp
next
  fix t assume "cur t \<noteq> NUL" "isspace (cur t)"
  then show "(advance t, t) \<in> measure (\<lambda>t. length (input t) - pos t)"
    by (auto simp: cur_def advance_def split: if_splits)
next
  fix t assume "cur t \<noteq> NUL" "cur t = CHR '';''"
  then show "(skip_comment t, t) \<in> measure (\<lambda>t. length (input t) - pos t)"
    using skip_comment_progress [of t] by (simp add: newline_def)
qed

declare skip_whitespace.simps [simp del]

text \<open>The \<open>while\<close> loop of \<open>read_token\<close> that runs over an atom.\<close>

function scan_atom :: "Tokenizer \<Rightarrow> Tokenizer" where
  "scan_atom t =
     (if cur t \<noteq> NUL \<and> \<not> isspace (cur t) \<and> cur t \<noteq> CHR ''('' \<and> cur t \<noteq> CHR '')''
      then scan_atom (advance t) else t)"
  by pat_completeness auto
termination
  by (relation "measure (\<lambda>t. length (input t) - pos t)")
     (auto simp: cur_def advance_def split: if_splits)

declare scan_atom.simps [simp del]

text \<open>\<open>read_token\<close>: \<open>None\<close> is the \<open>NULL\<close> it returns at the end of the input.\<close>

definition read_token :: "Tokenizer \<Rightarrow> string option \<times> Tokenizer" where
  "read_token t0 =
     (let t = skip_whitespace t0 in
      if cur t = NUL then (None, t)
      else if cur t = CHR ''('' \<or> cur t = CHR '')'' then (Some [cur t], advance t)
      else
        let start = pos t; t' = scan_atom t; len = pos t' - start
        in (Some (take len (drop start (input t))), t'))"

section \<open>Parser\<close>

text \<open>
  The number test of \<open>parse_expr\<close>: \<open>i\<close> starts after a leading minus sign, the token
  must not end there, and every character from there on must be a digit.
\<close>

definition is_num :: "string \<Rightarrow> bool" where
  "is_num token =
     (let i = (if token \<noteq> [] \<and> hd token = CHR ''-'' then 1 else 0 :: nat)
      in i < length token \<and> list_all isdigit (drop i token))"

text \<open>
  \<open>atoi\<close> of the C library: white space, an optional sign, then decimal digits up to the
  first character that is not one.  The C standard leaves the result open when the number
  does not fit an \<open>int\<close>; here it is cut to 32 bits.
\<close>

fun atoi_digits :: "int \<Rightarrow> string \<Rightarrow> int" where
  "atoi_digits acc [] = acc"
| "atoi_digits acc (c # cs) =
     (if isdigit c then atoi_digits (acc * 10 + (int (of_char c) - 48)) cs else acc)"

definition atoi :: "string \<Rightarrow> 32 word" where
  "atoi str =
     (case dropWhile isspace str of
        [] \<Rightarrow> 0
      | c # cs \<Rightarrow>
          if c = CHR ''-'' then word_of_int (- atoi_digits 0 cs)
          else if c = CHR ''+'' then word_of_int (atoi_digits 0 cs)
          else word_of_int (atoi_digits 0 (c # cs)))"

text \<open>
  \<open>parse_expr\<close> and \<open>parse_list\<close> call each other; the first argument bounds the depth
  of the calls.  In \<open>cons(make_symbol("quote"), cons(quoted, nil_obj))\<close> the symbol is
  allocated before the inner cell.
\<close>

fun parse_expr :: "nat \<Rightarrow> Tokenizer \<Rightarrow> state \<Rightarrow> (ptr \<times> Tokenizer \<times> state) result"
  and parse_list :: "nat \<Rightarrow> Tokenizer \<Rightarrow> state \<Rightarrow> (ptr \<times> Tokenizer \<times> state) result" where
  "parse_expr 0 t s = Inl OutOfFuel"
| "parse_expr (Suc n) t s =
     (case read_token t of
        (None, t1) \<Rightarrow> Inr (NULL, t1, s)
      | (Some token, t1) \<Rightarrow>
          if token = ''('' then
            (case parse_list n t1 s of Inl e \<Rightarrow> Inl e | Inr (list, t2, s2) \<Rightarrow>
               case read_token t2 of (token2, t3) \<Rightarrow>
                 Inr (list, t3,
                   if token2 = Some '')'' then s2 else eprint (''Expected '' @ [CHR 0x27, CHR '')'', CHR 0x27]) s2))
          else if token = [CHR 0x27] then
            (case parse_expr n t1 s of Inl e \<Rightarrow> Inl e | Inr (quoted, t2, s2) \<Rightarrow>
               case make_symbol ''quote'' s2 of Inl e \<Rightarrow> Inl e | Inr (q, s3) \<Rightarrow>
                 case cons quoted nil_obj s3 of Inl e \<Rightarrow> Inl e | Inr (rest, s4) \<Rightarrow>
                   case cons q rest s4 of Inl e \<Rightarrow> Inl e | Inr (r, s5) \<Rightarrow> Inr (r, t2, s5))
          else if is_num token then
            (case make_int (atoi token) s of Inl e \<Rightarrow> Inl e | Inr (r, s1) \<Rightarrow> Inr (r, t1, s1))
          else
            (case make_symbol token s of Inl e \<Rightarrow> Inl e | Inr (r, s1) \<Rightarrow> Inr (r, t1, s1)))"
| "parse_list 0 t s = Inl OutOfFuel"
| "parse_list (Suc n) t0 s =
     (let t = skip_whitespace t0 in
      if cur t = CHR '')'' then Inr (nil_obj, t, s)
      else if cur t = NUL then Inr (nil_obj, t, eprint ''Unexpected EOF in list'' s)
      else
        case parse_expr n t s of Inl e \<Rightarrow> Inl e | Inr (car_obj, t1, s1) \<Rightarrow>
          case parse_list n t1 s1 of Inl e \<Rightarrow> Inl e | Inr (cdr_obj, t2, s2) \<Rightarrow>
            case cons car_obj cdr_obj s2 of Inl e \<Rightarrow> Inl e | Inr (r, s3) \<Rightarrow> Inr (r, t2, s3))"

section \<open>Environments\<close>

text \<open>
  An environment is a list of \<open>(symbol . value)\<close> cells in the store.  \<open>env_lookup\<close>
  returns \<open>NULL\<close> when no key has the name; \<open>strcmp(...) == 0\<close> is equality of the two
  names.
\<close>

fun env_lookup :: "nat \<Rightarrow> ptr \<Rightarrow> string \<Rightarrow> state \<Rightarrow> (ptr \<times> state) result" where
  "env_lookup 0 env name s = Inl OutOfFuel"
| "env_lookup (Suc n) env name s =
     (if is_nil env then Inr (NULL, s)
      else case car env s of Inl e \<Rightarrow> Inl e | Inr (pair, s1) \<Rightarrow>
        case car pair s1 of Inl e \<Rightarrow> Inl e | Inr (key, s2) \<Rightarrow>
          case sym_of s2 key of Inl e \<Rightarrow> Inl e | Inr k \<Rightarrow>
            if k = name then cdr pair s2
            else case cdr env s2 of Inl e \<Rightarrow> Inl e | Inr (env', s3) \<Rightarrow>
              env_lookup n env' name s3)"

definition env_define :: "ptr \<Rightarrow> string \<Rightarrow> ptr \<Rightarrow> state \<Rightarrow> (ptr \<times> state) result" where
  "env_define env name val s =
     (case make_symbol name s of Inl e \<Rightarrow> Inl e | Inr (k, s1) \<Rightarrow>
        case cons k val s1 of Inl e \<Rightarrow> Inl e | Inr (pair, s2) \<Rightarrow> cons pair env s2)"

section \<open>Evaluator\<close>

text \<open>
  The parameter binding loop of a closure call.  The arguments of
  \<open>env_define(new_env, car(params)->sym, car(vals))\<close> are taken from left to right.
\<close>

fun bind_params :: "nat \<Rightarrow> ptr \<Rightarrow> ptr \<Rightarrow> ptr \<Rightarrow> state \<Rightarrow> (ptr \<times> state) result" where
  "bind_params 0 new_env params vals s = Inl OutOfFuel"
| "bind_params (Suc n) new_env params vals s =
     (if \<not> is_nil params \<and> \<not> is_nil vals then
        case car params s of Inl e \<Rightarrow> Inl e | Inr (p, s1) \<Rightarrow>
          case sym_of s1 p of Inl e \<Rightarrow> Inl e | Inr name \<Rightarrow>
            case car vals s1 of Inl e \<Rightarrow> Inl e | Inr (v, s2) \<Rightarrow>
              case env_define new_env name v s2 of Inl e \<Rightarrow> Inl e | Inr (new_env', s3) \<Rightarrow>
                case cdr params s3 of Inl e \<Rightarrow> Inl e | Inr (params', s4) \<Rightarrow>
                  case cdr vals s4 of Inl e \<Rightarrow> Inl e | Inr (vals', s5) \<Rightarrow>
                    bind_params n new_env' params' vals' s5
      else Inr (new_env, s))"

text \<open>
  The symbol case of \<open>eval\<close>: the names \<open>nil\<close> and \<open>t\<close> denote the singletons, any
  other name is looked up in the environment of the call and then, if that fails and
  \<open>global_env_ptr\<close> is set, in the global environment.
\<close>

definition eval_symbol :: "nat \<Rightarrow> string \<Rightarrow> ptr \<Rightarrow> state \<Rightarrow> (ptr \<times> state) result" where
  "eval_symbol n name env s =
     (if name = ''nil'' then Inr (nil_obj, s)
      else if name = ''t'' then Inr (t_obj, s)
      else
        case env_lookup n env name s of Inl e \<Rightarrow> Inl e | Inr (val, s1) \<Rightarrow>
          case (if val = NULL
                then (case global_env s1 of
                        Some g \<Rightarrow> env_lookup n g name s1
                      | None \<Rightarrow> Inr (val, s1))
                else Inr (val, s1)) of
            Inl e \<Rightarrow> Inl e
          | Inr (val', s2) \<Rightarrow>
              if val' = NULL then Inr (nil_obj, eprint (''Undefined symbol: '' @ name) s2)
              else Inr (val', s2))"

text \<open>
  The \<open>if\<close> form after its condition has been evaluated: the expression of the one
  branch that \<open>eval\<close> goes on with, or \<open>None\<close> where it returns \<open>nil_obj\<close> at once.
\<close>

definition if_branch :: "ptr \<Rightarrow> ptr \<Rightarrow> state \<Rightarrow> (ptr option \<times> state) result" where
  "if_branch cond args s =
     (if \<not> is_nil cond then
        (case cdr args s of Inl e \<Rightarrow> Inl e | Inr (d, s1) \<Rightarrow>
           case car d s1 of Inl e \<Rightarrow> Inl e | Inr (a, s2) \<Rightarrow> Inr (Some a, s2))
      else
        (case cdr args s of Inl e \<Rightarrow> Inl e | Inr (d, s1) \<Rightarrow>
           case cdr d s1 of Inl e \<Rightarrow> Inl e | Inr (dd, s2) \<Rightarrow>
             if \<not> is_nil dd then
               (case cdr args s2 of Inl e \<Rightarrow> Inl e | Inr (d', s3) \<Rightarrow>
                  case cdr d' s3 of Inl e \<Rightarrow> Inl e | Inr (dd', s4) \<Rightarrow>
                    case car dd' s4 of Inl e \<Rightarrow> Inl e | Inr (b, s5) \<Rightarrow> Inr (Some b, s5))
             else Inr (None, s2)))"

definition eval_lambda :: "ptr \<Rightarrow> ptr \<Rightarrow> state \<Rightarrow> (ptr \<times> state) result" where
  "eval_lambda args env s =
     (case car args s of Inl e \<Rightarrow> Inl e | Inr (params, s1) \<Rightarrow>
        case cdr args s1 of Inl e \<Rightarrow> Inl e | Inr (d, s2) \<Rightarrow>
          case car d s2 of Inl e \<Rightarrow> Inl e | Inr (body, s3) \<Rightarrow>
            make_lambda params body env s3)"

text \<open>
  The \<open>defun\<close> form.  The closure captures \<open>*global_env_ptr\<close> as it is before the
  definition (or \<open>env\<close> while the pointer is \<open>NULL\<close>); \<open>name->sym\<close> is read only when
  the binding is installed.
\<close>

definition eval_defun :: "ptr \<Rightarrow> ptr \<Rightarrow> state \<Rightarrow> (ptr \<times> state) result" where
  "eval_defun args env s =
     (case car args s of Inl e \<Rightarrow> Inl e | Inr (name, s1) \<Rightarrow>
        case cdr args s1 of Inl e \<Rightarrow> Inl e | Inr (d, s2) \<Rightarrow>
          case car d s2 of Inl e \<Rightarrow> Inl e | Inr (params, s3) \<Rightarrow>
            case cdr args s3 of Inl e \<Rightarrow> Inl e | Inr (d', s4) \<Rightarrow>
              case cdr d' s4 of Inl e \<Rightarrow> Inl e | Inr (dd, s5) \<Rightarrow>
                case car dd s5 of Inl e \<Rightarrow> Inl e | Inr (body, s6) \<Rightarrow>
                  case make_lambda params body
                         (case global_env s6 of Some g \<Rightarrow> g | None \<Rightarrow> env) s6 of
                    Inl e \<Rightarrow> Inl e
                  | Inr (lambda, s7) \<Rightarrow>
                      (case global_env s7 of
                         None \<Rightarrow> Inr (name, s7)
                       | Some g \<Rightarrow>
                           case sym_of s7 name of Inl e \<Rightarrow> Inl e | Inr nm \<Rightarrow>
                             case env_define g nm lambda s7 of
                               Inl e \<Rightarrow> Inl e
                             | Inr (g', s8) \<Rightarrow> Inr (name, s8\<lparr>global_env := Some g'\<rparr>)))"

text \<open>
  \<open>eval\<close> and \<open>eval_list\<close>.  The first argument bounds the depth of the recursion
  and the length of every loop started from it.  In
  \<open>cons(eval(car(list), env), eval_list(cdr(list), env))\<close> the head is evaluated before
  the tail.
\<close>

fun eval :: "nat \<Rightarrow> ptr \<Rightarrow> ptr \<Rightarrow> state \<Rightarrow> (ptr \<times> state) result"
  and eval_list :: "nat \<Rightarrow> ptr \<Rightarrow> ptr \<Rightarrow> state \<Rightarrow> (ptr \<times> state) result" where
  "eval 0 expr env s = Inl OutOfFuel"
| "eval (Suc n) expr env s =
     (if expr = NULL then Inr (nil_obj, s)
      else case deref s expr of
        Inl e \<Rightarrow> Inl e
      | Inr (T_INT num) \<Rightarrow> Inr (expr, s)
      | Inr (T_SYMBOL name) \<Rightarrow> eval_symbol n name env s
      | Inr (T_CONS op args) \<Rightarrow>
          (case deref s op of Inl e \<Rightarrow> Inl e | Inr opo \<Rightarrow>
             if opo = T_SYMBOL ''quote'' then car args s
             else if opo = T_SYMBOL ''if'' then
               (case car args s of Inl e \<Rightarrow> Inl e | Inr (c, s1) \<Rightarrow>
                  case eval n c env s1 of Inl e \<Rightarrow> Inl e | Inr (cond, s2) \<Rightarrow>
                    case if_branch cond args s2 of
                      Inl e \<Rightarrow> Inl e
                    | Inr (None, s3) \<Rightarrow> Inr (nil_obj, s3)
                    | Inr (Some b, s3) \<Rightarrow> eval n b env s3)
             else if opo = T_SYMBOL ''lambda'' then eval_lambda args env s
             else if opo = T_SYMBOL ''defun'' then eval_defun args env s
             else
               (case eval n op env s of Inl e \<Rightarrow> Inl e | Inr (func, s1) \<Rightarrow>
                  case deref s1 func of
                    Inl e \<Rightarrow> Inl e
                  | Inr (T_FUNC f) \<Rightarrow>
                      (case eval_list n args env s1 of Inl e \<Rightarrow> Inl e | Inr (evaled_args, s2) \<Rightarrow>
                         call_builtin n f evaled_args env s2)
                  | Inr (T_LAMBDA params body cenv) \<Rightarrow>
                      (case eval_list n args env s1 of Inl e \<Rightarrow> Inl e | Inr (evaled_args, s2) \<Rightarrow>
                         case bind_params n cenv params evaled_args s2 of
                           Inl e \<Rightarrow> Inl e
                         | Inr (new_env, s3) \<Rightarrow> eval n body new_env s3)
                  | Inr _ \<Rightarrow> Inr (nil_obj, eprint ''Not a function'' s1)))
      | Inr _ \<Rightarrow> Inr (expr, s))"
| "eval_list 0 list env s = Inl OutOfFuel"
| "eval_list (Suc n) list env s =
     (if is_nil list then Inr (nil_obj, s)
      else case car list s of Inl e \<Rightarrow> Inl e | Inr (a, s1) \<Rightarrow>
        case eval n a env s1 of Inl e \<Rightarrow> Inl e | Inr (v, s2) \<Rightarrow>
          case cdr list s2 of Inl e \<Rightarrow> Inl e | Inr (d, s3) \<Rightarrow>
            case eval_list n d env s3 of Inl e \<Rightarrow> Inl e | Inr (vs, s4) \<Rightarrow> cons v vs s4)"

section \<open>Session\<close>

text \<open>
  \<open>init_env\<close>: each \<open>env_define(env, name, make_func(f))\<close> allocates the function object
  first.
\<close>

definition define_builtin :: "string \<Rightarrow> BuiltinFunc \<Rightarrow> ptr \<times> state \<Rightarrow> (ptr \<times> state) result" where
  "define_builtin name f es =
     (case make_func f (snd es) of Inl e \<Rightarrow> Inl e | Inr (fo, s1) \<Rightarrow>
        env_define (fst es) name fo s1)"

definition init_env :: "state \<Rightarrow> (ptr \<times> state) result" where
  "init_env s =
     (case define_builtin ''car'' Fn_car (nil_obj, s) of Inl e \<Rightarrow> Inl e | Inr es1 \<Rightarrow>
      case define_builtin ''cdr'' Fn_cdr es1 of Inl e \<Rightarrow> Inl e | Inr es2 \<Rightarrow>
      case define_builtin ''cons'' Fn_cons es2 of Inl e \<Rightarrow> Inl e | Inr es3 \<Rightarrow>
      case define_builtin ''+'' Fn_add es3 of Inl e \<Rightarrow> Inl e | Inr es4 \<Rightarrow>
      case define_builtin ''-'' Fn_sub es4 of Inl e \<Rightarrow> Inl e | Inr es5 \<Rightarrow>
      case define_builtin ''*'' Fn_mul es5 of Inl e \<Rightarrow> Inl e | Inr es6 \<Rightarrow>
      case define_builtin ''/'' Fn_div es6 of Inl e \<Rightarrow> Inl e | Inr es7 \<Rightarrow>
      case define_builtin ''eq'' Fn_eq es7 of Inl e \<Rightarrow> Inl e | Inr es8 \<Rightarrow>
      case define_builtin ''<'' Fn_lt es8 of Inl e \<Rightarrow> Inl e | Inr es9 \<Rightarrow>
      define_builtin ''print'' Fn_print es9)"

text \<open>
  The start of \<open>repl\<close>: the two singletons, the initial environment, and
  \<open>global_env_ptr = &global_env\<close>.  The banner and the prompts it writes are left out.
\<close>

definition empty_state :: state where
  "empty_state = \<lparr>all_objs = [], global_env = None, stdout = [], stderr = []\<rparr>"

definition repl_init :: "state result" where
  "repl_init =
     (case alloc_obj (T_SYMBOL ''nil'') empty_state of Inl e \<Rightarrow> Inl e | Inr (n, s1) \<Rightarrow>
      case alloc_obj (T_SYMBOL ''t'') s1 of Inl e \<Rightarrow> Inl e | Inr (t, s2) \<Rightarrow>
      case init_env s2 of Inl e \<Rightarrow> Inl e | Inr (env, s3) \<Rightarrow>
        Inr (s3\<lparr>global_env := Some env\<rparr>))"

text \<open>
  One round of the loop of \<open>repl\<close> on a chunk of input it has collected: parse the first
  expression and, unless the parser returned \<open>NULL\<close>, evaluate it in the global
  environment and print the result and a newline.  \<open>read_eval\<close> is that round up to the
  value, before it is printed.
\<close>

definition read_eval :: "nat \<Rightarrow> string \<Rightarrow> state \<Rightarrow> (ptr \<times> state) result" where
  "read_eval n text s =
     (case parse_expr n \<lparr>input = text, pos = 0\<rparr> s of Inl e \<Rightarrow> Inl e | Inr (expr, t, s1) \<Rightarrow>
        if expr = NULL then Inr (NULL, s1)
        else eval n expr (case global_env s1 of Some g \<Rightarrow> g | None \<Rightarrow> NULL) s1)"

definition repl_step :: "nat \<Rightarrow> string \<Rightarrow> state \<Rightarrow> state result" where
  "repl_step n text s =
     (case parse_expr n \<lparr>input = text, pos = 0\<rparr> s of Inl e \<Rightarrow> Inl e | Inr (expr, t, s1) \<Rightarrow>
        if expr = NULL then Inr s1
        else case eval n expr (case global_env s1 of Some g \<Rightarrow> g | None \<Rightarrow> NULL) s1 of
          Inl e \<Rightarrow> Inl e
        | Inr (r, s2) \<Rightarrow>
            (case print_obj n r s2 of Inl e \<Rightarrow> Inl e | Inr s3 \<Rightarrow> Inr (oprint [newline] s3)))"

section \<open>The integer syntax of the specification\<close>





section \<open>Concrete states\<close>

text \<open>
  The state in which \<open>repl\<close> enters its loop: the two singletons followed by the ten
  bindings of \<open>init_env\<close>, four objects each (\<open>repl_init_session0\<close> below).
\<close>

definition session0 :: state where
  "session0 = \<lparr>all_objs =
        [T_SYMBOL ''nil'', T_SYMBOL ''t'', T_FUNC Fn_car, T_SYMBOL ''car'',
         T_CONS (Ptr 3) (Ptr 2), T_CONS (Ptr 4) (Ptr 0), T_FUNC Fn_cdr,
         T_SYMBOL ''cdr'', T_CONS (Ptr 7) (Ptr 6), T_CONS (Ptr 8) (Ptr 5),
         T_FUNC Fn_cons, T_SYMBOL ''cons'', T_CONS (Ptr 11) (Ptr 10),
         T_CONS (Ptr 12) (Ptr 9), T_FUNC Fn_add, T_SYMBOL ''+'',
         T_CONS (Ptr 15) (Ptr 14), T_CONS (Ptr 16) (Ptr 13), T_FUNC Fn_sub,
         T_SYMBOL ''-'', T_CONS (Ptr 19) (Ptr 18), T_CONS (Ptr 20) (Ptr 17),
         T_FUNC Fn_mul, T_SYMBOL ''*'', T_CONS (Ptr 23) (Ptr 22),
         T_CONS (Ptr 24) (Ptr 21), T_FUNC Fn_div, T_SYMBOL ''/'',
         T_CONS (Ptr 27) (Ptr 26), T_CONS (Ptr 28) (Ptr 25), T_FUNC Fn_eq,
         T_SYMBOL ''eq'', T_CONS (Ptr 31) (Ptr 30),
         T_CONS (Ptr 32) (Ptr 29), T_FUNC Fn_lt, T_SYMBOL ''<'',
         T_CONS (Ptr 35) (Ptr 34), T_CONS (Ptr 36) (Ptr 33),
         T_FUNC Fn_print, T_SYMBOL ''print'', T_CONS (Ptr 39) (Ptr 38),
         T_CONS (Ptr 40) (Ptr 37)],
        global_env = Some (Ptr 41), stdout = [], stderr = []\<rparr>"


section \<open>Evaluating the model on concrete input\<close>

text \<open>
  The recursion bound of a concrete run is a numeral; these are the defining equations for
  \<open>Suc n\<close> at \<open>numeral k\<close>.
\<close>

lemmas fuel_numeral =
  parse_expr.simps(2)[of "pred_numeral k" for k, folded numeral_eq_Suc]
  parse_list.simps(2)[of "pred_numeral k" for k, folded numeral_eq_Suc]
  eval.simps(2)[of "pred_numeral k" for k, folded numeral_eq_Suc]
  eval_list.simps(2)[of "pred_numeral k" for k, folded numeral_eq_Suc]
  env_lookup.simps(2)[of "pred_numeral k" for k, folded numeral_eq_Suc]
  bind_params.simps(2)[of "pred_numeral k" for k, folded numeral_eq_Suc]
  add_loop.simps(2)[of "pred_numeral k" for k, folded numeral_eq_Suc]
  sub_loop.simps(2)[of "pred_numeral k" for k, folded numeral_eq_Suc]
  mul_loop.simps(2)[of "pred_numeral k" for k, folded numeral_eq_Suc]
  div_loop.simps(2)[of "pred_numeral k" for k, folded numeral_eq_Suc]
  print_obj.simps(2)[of "pred_numeral k" for k, folded numeral_eq_Suc]
  print_tail.simps(2)[of "pred_numeral k" for k, folded numeral_eq_Suc]
  print_loop.simps(2)[of "pred_numeral k" for k, folded numeral_eq_Suc]

lemmas heap_defs = make_int_def make_symbol_def make_func_def make_lambda_def cons_def
  alloc_obj_def MAX_OBJS_def car_def cdr_def deref_def sym_of_def is_nil_def nil_obj_def t_obj_def
  eprint_def oprint_def newline_def env_define_def

lemmas token_defs = read_token_def skip_whitespace.simps scan_atom.simps skip_comment.simps
  cur_def advance_def NUL_def isspace_def is_num_def isdigit_def atoi_def Let_def

lemmas eval_defs = eval_symbol_def if_branch_def eval_lambda_def eval_defun_def read_eval_def
  builtin_car_def builtin_cdr_def builtin_cons_def builtin_add_def builtin_sub_def builtin_mul_def
  builtin_div_def builtin_eq_def builtin_lt_def builtin_print_def c_div_def

lemma repl_init_session0: "repl_init = Inr session0"
  by (simp add: repl_init_def init_env_def define_builtin_def empty_state_def session0_def heap_defs)

section \<open>Basic facts about the store\<close>

lemma alloc_obj_ok:
  "length (all_objs s) < MAX_OBJS \<Longrightarrow>
   alloc_obj obj s = Inr (Ptr (length (all_objs s)), s\<lparr>all_objs := all_objs s @ [obj]\<rparr>)"
  by (simp add: alloc_obj_def)



section \<open>The built-in functions\<close>

text \<open>
  C10.  Applied to the empty argument list, \<open>builtin_div\<close> returns a fresh Integer 1 and
  changes nothing but the object array: no diagnostic is written.  (When the object array
  is full the allocation ends the process instead.)
\<close>

theorem builtin_div_no_args:
  assumes "length (all_objs s) < MAX_OBJS"
  shows "builtin_div n nil_obj env s =
           Inr (Ptr (length (all_objs s)), s\<lparr>all_objs := all_objs s @ [T_INT 1]\<rparr>)
         \<and> stderr (s\<lparr>all_objs := all_objs s @ [T_INT 1]\<rparr>) = stderr s"
  using assms by (simp add: builtin_div_def is_nil_def make_int_def alloc_obj_ok)

theorem builtin_div_no_args_witness:
  "length (all_objs session0) < MAX_OBJS
   \<and> builtin_div 0 nil_obj (Ptr 41) session0 =
       Inr (Ptr 42, session0\<lparr>all_objs := all_objs session0 @ [T_INT 1]\<rparr>)
   \<and> deref (session0\<lparr>all_objs := all_objs session0 @ [T_INT 1]\<rparr>) (Ptr 42) = Inr (T_INT 1)
   \<and> stderr (session0\<lparr>all_objs := all_objs session0 @ [T_INT 1]\<rparr>) = []"
  using builtin_div_no_args [of session0 0 "Ptr 41"]
  by (simp add: session0_def MAX_OBJS_def deref_def)




text \<open>
  C4.  The four arithmetic built-ins applied to the one-element list that holds the symbol
  \<open>a\<close>, as the session evaluates \<open>(* (quote a))\<close>, \<open>(- (quote a))\<close>, \<open>(/ (quote a))\<close>
  and \<open>(+ (quote a))\<close>: \<open>builtin_mul\<close> returns 1, \<open>builtin_sub\<close> returns 0 and
  \<open>builtin_div\<close> returns 1, each without writing to \<open>stderr\<close>; only \<open>builtin_add\<close>
  writes its diagnostic (and returns 0).
\<close>

theorem arithmetic_non_integer_runs:
  "(case read_eval 100 ''(* (quote a))'' session0 of
      Inl e \<Rightarrow> False
    | Inr (p, s) \<Rightarrow> deref s p = Inr (T_INT 1) \<and> stderr s = [])
  \<and> (case read_eval 100 ''(- (quote a))'' session0 of
      Inl e \<Rightarrow> False
    | Inr (p, s) \<Rightarrow> deref s p = Inr (T_INT 0) \<and> stderr s = [])
  \<and> (case read_eval 100 ''(/ (quote a))'' session0 of
      Inl e \<Rightarrow> False
    | Inr (p, s) \<Rightarrow> deref s p = Inr (T_INT 1) \<and> stderr s = [])
  \<and> (case read_eval 100 ''(+ (quote a))'' session0 of
      Inl e \<Rightarrow> False
    | Inr (p, s) \<Rightarrow> deref s p = Inr (T_INT 0) \<and> stderr s = ''+: expected integer'' @ [newline])"
  by (simp add: session0_def fuel_numeral heap_defs token_defs eval_defs cong: prod.case_cong_weak)

section \<open>The reader\<close>

subsection \<open>White space\<close>

lemma skip_whitespace_stop:
  "cur t = NUL \<or> (\<not> isspace (cur t) \<and> cur t \<noteq> CHR '';'') \<Longrightarrow> skip_whitespace t = t"
  by (subst skip_whitespace.simps) auto

lemma skip_whitespace_cur:
  "cur (skip_whitespace t) = NUL \<or>
   (\<not> isspace (cur (skip_whitespace t)) \<and> cur (skip_whitespace t) \<noteq> CHR '';'')"
proof (induction t rule: skip_whitespace.induct)
  case (1 t)
  show ?case
  proof (cases "cur t \<noteq> NUL \<and> isspace (cur t)")
    case True
    then have "skip_whitespace t = skip_whitespace (advance t)"
      by (subst skip_whitespace.simps) simp
    with True "1.IH"(1) show ?thesis by simp
  next
    case False
    note nsp = this
    show ?thesis
    proof (cases "cur t \<noteq> NUL \<and> cur t = CHR '';''")
      case True
      with nsp have "skip_whitespace t = skip_whitespace (skip_comment t)"
        by (subst skip_whitespace.simps) auto
      with True nsp "1.IH"(2) show ?thesis by auto
    next
      case False
      with nsp have "skip_whitespace t = t"
        by (subst skip_whitespace.simps) auto
      with False nsp show ?thesis by auto
    qed
  qed
qed

lemma skip_whitespace_idem: "skip_whitespace (skip_whitespace t) = skip_whitespace t"
  by (rule skip_whitespace_stop) (rule skip_whitespace_cur)


subsection \<open>Numbers and symbols\<close>








text \<open>
  C2 (as amended).  The token \<open>nil\<close> is no exception to the above: \<open>parse_expr\<close> makes a
  fresh symbol named \<open>nil\<close> for every occurrence, a new object that is not \<open>nil_obj\<close>;
  it is \<open>eval\<close> that replaces a symbol of that name by the singleton.  The tail that
  \<open>parse_list\<close> returns at the closing parenthesis is the singleton itself.
\<close>

theorem nil_token_fresh_symbol:
  assumes "read_token t = (Some ''nil'', t1)" and "length (all_objs s) < MAX_OBJS"
    and "all_objs s \<noteq> []"
    and "cur (skip_whitespace u) = CHR '')''"
  shows "parse_expr (Suc n) t s =
           Inr (Ptr (length (all_objs s)), t1, s\<lparr>all_objs := all_objs s @ [T_SYMBOL ''nil'']\<rparr>)
         \<and> Ptr (length (all_objs s)) \<noteq> nil_obj
         \<and> eval (Suc m) (Ptr (length (all_objs s))) env
              (s\<lparr>all_objs := all_objs s @ [T_SYMBOL ''nil'']\<rparr>)
            = Inr (nil_obj, s\<lparr>all_objs := all_objs s @ [T_SYMBOL ''nil'']\<rparr>)
         \<and> parse_list (Suc n) u s = Inr (nil_obj, skip_whitespace u, s)"
  using assms
  by (simp add: is_num_def isdigit_def make_symbol_def alloc_obj_ok nil_obj_def deref_def
      eval_symbol_def Let_def)

theorem nil_token_fresh_symbol_witness:
  "read_token \<lparr>input = ''nil'', pos = 0\<rparr> = (Some ''nil'', \<lparr>input = ''nil'', pos = 3\<rparr>)
   \<and> length (all_objs session0) < MAX_OBJS \<and> all_objs session0 \<noteq> []
   \<and> cur (skip_whitespace \<lparr>input = ''(a)'', pos = 2\<rparr>) = CHR '')''
   \<and> parse_expr 1 \<lparr>input = ''nil'', pos = 0\<rparr> session0 =
       Inr (Ptr 42, \<lparr>input = ''nil'', pos = 3\<rparr>,
            session0\<lparr>all_objs := all_objs session0 @ [T_SYMBOL ''nil'']\<rparr>)
   \<and> Ptr 42 \<noteq> nil_obj
   \<and> eval 1 (Ptr 42) (Ptr 41) (session0\<lparr>all_objs := all_objs session0 @ [T_SYMBOL ''nil'']\<rparr>)
       = Inr (nil_obj, session0\<lparr>all_objs := all_objs session0 @ [T_SYMBOL ''nil'']\<rparr>)
   \<and> parse_list 1 \<lparr>input = ''(a)'', pos = 2\<rparr> session0 =
       Inr (nil_obj, \<lparr>input = ''(a)'', pos = 2\<rparr>, session0)"
proof -
  have r: "read_token \<lparr>input = ''nil'', pos = 0\<rparr> = (Some ''nil'', \<lparr>input = ''nil'', pos = 3\<rparr>)"
    by (simp add: token_defs)
  have room: "length (all_objs session0) < MAX_OBJS" and ne: "all_objs session0 \<noteq> []"
    and len: "length (all_objs session0) = 42"
    by (simp_all add: session0_def MAX_OBJS_def)
  have e: "skip_whitespace \<lparr>input = ''(a)'', pos = 2\<rparr> = \<lparr>input = ''(a)'', pos = 2\<rparr>"
    by (simp add: token_defs)
  have c: "cur (skip_whitespace \<lparr>input = ''(a)'', pos = 2\<rparr>) = CHR '')''"
    unfolding e by (simp add: cur_def)
  show ?thesis
    unfolding e
    using r room ne nil_token_fresh_symbol [OF r room ne c, of 0 0 "Ptr 41", unfolded e]
    by (simp add: len cur_def del: parse_expr.simps parse_list.simps eval.simps)
qed

text \<open>
  The claim as stated fails in the session: the object parsed from the text \<open>nil\<close> is a
  symbol named \<open>nil\<close> that is not \<open>nil_obj\<close>, while the tail of the list parsed from
  \<open>(a)\<close> is \<open>nil_obj\<close>.
\<close>

theorem nil_token_counterexample:
  "(case parse_expr 100 \<lparr>input = ''nil'', pos = 0\<rparr> session0 of
      Inl e \<Rightarrow> False
    | Inr (p, t, s) \<Rightarrow> p \<noteq> nil_obj \<and> deref s p = Inr (T_SYMBOL ''nil''))
   \<and> (case parse_expr 100 \<lparr>input = ''(a)'', pos = 0\<rparr> session0 of
      Inl e \<Rightarrow> False
    | Inr (p, t, s) \<Rightarrow> cdr p s = Inr (nil_obj, s))"
  by (simp add: session0_def fuel_numeral heap_defs token_defs cong: prod.case_cong_weak)




end
